theory Spec2Isabelle
  imports Complex_Main
begin

section \<open>The training driver \<open>main_train.py\<close>\<close>

text \<open>
  The script parses its command line, merges it into a fetched configuration, fetches a
  tokenizer, chooses a transformer and a data module by name, trains, and uploads a
  checkpoint when the run has come to its last epoch. Its own operations (dictionary
  indexing, comparison, arithmetic, \<open>raise\<close>) are modelled with their exceptions as
  values. The calls into its collaborators (wandb, torch, pytorch-lightning and the
  \<open>enkorde\<close> package) are recorded, in order, in a trace of events; what those calls
  return is read from an environment, and an exception raised inside a collaborator is
  outside the model.
\<close>

subsection \<open>Python values, dictionaries and exceptions\<close>

text \<open>
  The scalar values a configuration entry holds. A float is modelled by the number it
  denotes, with exact arithmetic.
\<close>

datatype pyval = VNone | VBool bool | VInt int | VFloat real | VStr string

type_synonym config = "string \<rightharpoonup> pyval"

datatype error = KeyError string | TypeError | ValueError string pyval

text \<open>\<open>d[k]\<close>: a missing key raises \<open>KeyError\<close>.\<close>

definition index :: "(string \<rightharpoonup> 'v) \<Rightarrow> string \<Rightarrow> error + 'v" where
  "index d k = (case d k of None \<Rightarrow> Inl (KeyError k) | Some v \<Rightarrow> Inr v)"

text \<open>\<open>d.update(e)\<close>: the entries of \<open>e\<close> replace those of \<open>d\<close>.\<close>

definition update :: "config \<Rightarrow> config \<Rightarrow> config" where
  "update d e = d ++ e"

text \<open>The truth value of an object, as \<open>not\<close> and \<open>and\<close> test it.\<close>

fun truthy :: "pyval \<Rightarrow> bool" where
  "truthy VNone = False"
| "truthy (VBool b) = b"
| "truthy (VInt n) = (n \<noteq> 0)"
| "truthy (VFloat x) = (x \<noteq> 0)"
| "truthy (VStr s) = (s \<noteq> [])"

text \<open>\<open>v - 1\<close>: a \<open>bool\<close> counts as the integer 0 or 1, \<open>None\<close> and \<open>str\<close> raise \<open>TypeError\<close>.\<close>

fun minus_one :: "pyval \<Rightarrow> error + pyval" where
  "minus_one VNone = Inl TypeError"
| "minus_one (VBool b) = Inr (VInt ((if b then 1 else 0) - 1))"
| "minus_one (VInt n) = Inr (VInt (n - 1))"
| "minus_one (VFloat x) = Inr (VFloat (x - 1))"
| "minus_one (VStr s) = Inl TypeError"

text \<open>\<open>n == v\<close> for an \<open>int\<close> \<open>n\<close>: numbers compare by value, anything else is unequal.\<close>

fun int_eq :: "int \<Rightarrow> pyval \<Rightarrow> bool" where
  "int_eq n VNone = False"
| "int_eq n (VBool b) = (n = (if b then 1 else 0))"
| "int_eq n (VInt m) = (n = m)"
| "int_eq n (VFloat x) = (of_int n = x)"
| "int_eq n (VStr s) = False"

text \<open>Sequencing of expressions that may raise.\<close>

definition bind_err :: "error + 'a \<Rightarrow> ('a \<Rightarrow> error + 'b) \<Rightarrow> error + 'b" where
  "bind_err m f = (case m of Inl e \<Rightarrow> Inl e | Inr x \<Rightarrow> f x)"

text \<open>\<open>os.path.join(a, b)\<close> on POSIX.\<close>

definition os_path_join :: "string \<Rightarrow> string \<Rightarrow> string" where
  "os_path_join a b =
     (if b \<noteq> [] \<and> hd b = CHR ''/'' then b
      else if a = [] \<or> last a = CHR ''/'' then a @ b
      else a @ ''/'' @ b)"

subsection \<open>The command line\<close>

text \<open>The namespace \<open>parser.parse_args()\<close> returns: one attribute for each argument.\<close>

record args =
  entity :: string
  model :: string
  ver :: string
  num_workers :: int
  log_every_n_steps :: int
  fast_dev_run :: bool
  overfit_batches :: int
  check_val_every_n_epoch :: int

text \<open>\<open>vars(args)\<close>: the namespace as a dictionary.\<close>

definition vars :: "args \<Rightarrow> config" where
  "vars a = map_of
     [(''entity'', VStr (entity a)),
      (''model'', VStr (model a)),
      (''ver'', VStr (ver a)),
      (''num_workers'', VInt (num_workers a)),
      (''log_every_n_steps'', VInt (log_every_n_steps a)),
      (''fast_dev_run'', VBool (fast_dev_run a)),
      (''overfit_batches'', VInt (overfit_batches a)),
      (''check_val_every_n_epoch'', VInt (check_val_every_n_epoch a))]"

definition cli_keys :: "string set" where
  "cli_keys = {''entity'', ''model'', ''ver'', ''num_workers'', ''log_every_n_steps'',
     ''fast_dev_run'', ''overfit_batches'', ''check_val_every_n_epoch''}"

subsection \<open>The collaborators\<close>

text \<open>
  The names the \<open>enkorde\<close> package gives its classes, and its root directory. They are
  defined outside this file and taken as parameters.
\<close>

record enkorde =
  TransformerTorch_name :: string
  TransformerScratch_name :: string
  Kor2EngDataModule_name :: string
  Kor2EngSmallDataModule_name :: string
  ROOT_DIR :: string

record tokenizer =
  get_vocab_size :: int
  pad_token_id :: int

text \<open>What the collaborators return in one run.\<close>

record env =
  fetch_config :: "string \<rightharpoonup> (string \<rightharpoonup> (string \<rightharpoonup> config))"
  fetch_tokenizer :: "pyval \<Rightarrow> pyval \<Rightarrow> tokenizer"
  cuda_is_available :: bool
  cuda_device_count :: int
  current_epoch :: int

datatype device = Cuda | Cpu

text \<open>
  The two transformers, with their constructor arguments in order: hidden size, ffn size,
  vocabulary size, maximal length, pad token id, heads, depth, dropout, learning rate,
  and for \<open>TransformerTorch\<close> the device.
\<close>

datatype transformer =
  TransformerTorch pyval pyval int pyval int pyval pyval pyval pyval device
| TransformerScratch pyval pyval int pyval int pyval pyval pyval pyval

datatype datamodule =
  Kor2EngDataModule config tokenizer
| Kor2EngSmallDataModule config tokenizer

datatype logger = WandbLogger bool

datatype callback = LearningRateMonitor string

text \<open>
  The trainer, with its keyword arguments in order: \<open>fast_dev_run\<close>,
  \<open>check_val_every_n_epoch\<close>, \<open>overfit_batches\<close>, \<open>max_epochs\<close>, \<open>log_every_n_steps\<close>,
  \<open>gpus\<close>, \<open>callbacks\<close>, \<open>enable_checkpointing\<close>, \<open>logger\<close>.
\<close>

datatype trainer =
  Trainer pyval pyval pyval pyval pyval int "callback list" bool logger

text \<open>An artifact: name, type, metadata and the files added to it.\<close>

datatype artifact = Artifact pyval string config "string list"

fun add_file :: "artifact \<Rightarrow> string \<Rightarrow> artifact" where
  "add_file (Artifact n t m fs) p = Artifact n t m (fs @ [p])"

text \<open>The calls into the collaborators, as the trace records them.\<close>

datatype event =
  Wandb_init pyval string config
| Fetch_tokenizer pyval pyval
| New_transformer transformer
| New_datamodule datamodule
| New_logger logger
| New_callback callback
| New_trainer trainer
| Trainer_fit trainer transformer datamodule
| Trainer_save_checkpoint trainer string
| New_artifact artifact
| Artifact_add_file artifact string
| Run_log_artifact artifact "pyval list"
| Os_remove string
| Run_exit "error option"

subsection \<open>Runs: a trace of events and an outcome\<close>

type_synonym 'a run = "event list \<times> (error + 'a)"

text \<open>An expression of the script itself: no event, and it may raise.\<close>

definition eval :: "error + 'a \<Rightarrow> 'a run" where
  "eval r = ([], r)"

text \<open>A call into a collaborator: one event, and the call returns.\<close>

definition call :: "event \<Rightarrow> 'a \<Rightarrow> 'a run" where
  "call ev x = ([ev], Inr x)"

text \<open>One statement after the other; an exception ends the run with the trace so far.\<close>

definition seq :: "'a run \<Rightarrow> ('a \<Rightarrow> 'b run) \<Rightarrow> 'b run" where
  "seq m f =
     (case m of
        (tr, Inl e) \<Rightarrow> (tr, Inl e)
      | (tr, Inr x) \<Rightarrow> (case f x of (tr', r) \<Rightarrow> (tr @ tr', r)))"

text \<open>
  Leaving a \<open>with\<close> block calls the context manager's \<open>__exit__\<close>, with the exception
  when there is one; the run's \<open>__exit__\<close> lets the exception go on.
\<close>

definition with_exit :: "'a run \<Rightarrow> 'a run" where
  "with_exit m =
     (case m of (tr, r) \<Rightarrow>
        (tr @ [Run_exit (case r of Inl e \<Rightarrow> Some e | Inr _ \<Rightarrow> None)], r))"

subsection \<open>The script\<close>

text \<open>Lines 25 and 26: the fetched entry, updated with the command line.\<close>

definition merge_config :: "env \<Rightarrow> args \<Rightarrow> error + config" where
  "merge_config env a =
     bind_err (index (fetch_config env) ''train'') (\<lambda>train.
     bind_err (index train (model a)) (\<lambda>by_ver.
     bind_err (index by_ver (ver a)) (\<lambda>config.
     Inr (update config (vars a)))))"

text \<open>
  Lines 31 to 60: the transformer to train. The arguments of a constructor are evaluated
  from left to right.
\<close>

definition choose_model :: "enkorde \<Rightarrow> env \<Rightarrow> config \<Rightarrow> tokenizer \<Rightarrow> error + transformer" where
  "choose_model c env config tok =
     bind_err (index config ''model'') (\<lambda>name.
     if name = VStr (TransformerTorch_name c) then
       (let dev = (if cuda_is_available env then Cuda else Cpu) in
        bind_err (index config ''hidden_size'') (\<lambda>hidden_size.
        bind_err (index config ''ffn_size'') (\<lambda>ffn_size.
        bind_err (index config ''max_length'') (\<lambda>max_length.
        bind_err (index config ''heads'') (\<lambda>heads.
        bind_err (index config ''depth'') (\<lambda>depth.
        bind_err (index config ''dropout'') (\<lambda>dropout.
        bind_err (index config ''lr'') (\<lambda>lr.
        Inr (TransformerTorch hidden_size ffn_size (get_vocab_size tok) max_length
               (pad_token_id tok) heads depth dropout lr dev)))))))))
     else if name = VStr (TransformerScratch_name c) then
        bind_err (index config ''hidden_size'') (\<lambda>hidden_size.
        bind_err (index config ''ffn_size'') (\<lambda>ffn_size.
        bind_err (index config ''max_length'') (\<lambda>max_length.
        bind_err (index config ''heads'') (\<lambda>heads.
        bind_err (index config ''depth'') (\<lambda>depth.
        bind_err (index config ''dropout'') (\<lambda>dropout.
        bind_err (index config ''lr'') (\<lambda>lr.
        Inr (TransformerScratch hidden_size ffn_size (get_vocab_size tok) max_length
               (pad_token_id tok) heads depth dropout lr))))))))
     else Inl (ValueError ''Invalid model: '' name))"

text \<open>Lines 62 to 67: the data to train on.\<close>

definition choose_data :: "enkorde \<Rightarrow> config \<Rightarrow> tokenizer \<Rightarrow> error + datamodule" where
  "choose_data c config tok =
     bind_err (index config ''data'') (\<lambda>name.
     if name = VStr (Kor2EngDataModule_name c) then Inr (Kor2EngDataModule config tok)
     else if name = VStr (Kor2EngSmallDataModule_name c) then
       Inr (Kor2EngSmallDataModule config tok)
     else Inl (ValueError ''Invalid data: '' name))"

text \<open>Lines 71 to 79: the trainer.\<close>

definition make_trainer :: "env \<Rightarrow> config \<Rightarrow> callback \<Rightarrow> logger \<Rightarrow> error + trainer" where
  "make_trainer env config lr_monitor lg =
     bind_err (index config ''fast_dev_run'') (\<lambda>fdr.
     bind_err (index config ''check_val_every_n_epoch'') (\<lambda>check_val.
     bind_err (index config ''overfit_batches'') (\<lambda>overfit.
     bind_err (index config ''max_epochs'') (\<lambda>max_epochs.
     bind_err (index config ''log_every_n_steps'') (\<lambda>log_every.
     Inr (Trainer fdr check_val overfit max_epochs log_every (cuda_device_count env)
            [lr_monitor] False lg))))))"

text \<open>
  Line 83: \<open>not config['fast_dev_run'] and trainer.current_epoch == config['max_epochs'] - 1\<close>.
  The right operand of \<open>and\<close> is evaluated only when the left one is true.
\<close>

definition gate :: "config \<Rightarrow> int \<Rightarrow> error + bool" where
  "gate config epoch =
     bind_err (index config ''fast_dev_run'') (\<lambda>fdr.
     if truthy fdr then Inr False
     else bind_err (index config ''max_epochs'') (\<lambda>max_epochs.
          bind_err (minus_one max_epochs) (\<lambda>last_epoch.
          Inr (int_eq epoch last_epoch))))"

text \<open>Lines 84 to 89: save the checkpoint, upload it, remove it.\<close>

definition upload :: "enkorde \<Rightarrow> config \<Rightarrow> trainer \<Rightarrow> unit run" where
  "upload c config tr =
     (let ckpt_path = os_path_join (ROOT_DIR c) ''transformer.ckpt'' in
      seq (call (Trainer_save_checkpoint tr ckpt_path) ()) (\<lambda>_.
      seq (eval (index config ''model'')) (\<lambda>name.
      seq (call (New_artifact (Artifact name ''model'' config []))
             (Artifact name ''model'' config [])) (\<lambda>art.
      seq (call (Artifact_add_file art ckpt_path) (add_file art ckpt_path)) (\<lambda>art'.
      seq (eval (index config ''ver'')) (\<lambda>v.
      seq (call (Run_log_artifact art' [VStr ''latest'', v]) ()) (\<lambda>_.
      call (Os_remove ckpt_path) ())))))))"

text \<open>Lines 83 to 89: the upload happens only when the test of line 83 is true.\<close>

definition finish :: "enkorde \<Rightarrow> env \<Rightarrow> config \<Rightarrow> trainer \<Rightarrow> unit run" where
  "finish c env config tr =
     seq (eval (gate config (current_epoch env))) (\<lambda>g.
     if g then upload c config tr else eval (Inr ()))"

text \<open>Lines 28 to 89: the body of the \<open>with\<close> block.\<close>

definition body :: "enkorde \<Rightarrow> env \<Rightarrow> config \<Rightarrow> unit run" where
  "body c env config =
     seq (eval (index config ''entity'')) (\<lambda>ent.
     seq (eval (index config ''tokenizer'')) (\<lambda>tok_name.
     seq (call (Fetch_tokenizer ent tok_name) (fetch_tokenizer env ent tok_name)) (\<lambda>tok.
     seq (eval (choose_model c env config tok)) (\<lambda>transformer.
     seq (call (New_transformer transformer) ()) (\<lambda>_.
     seq (eval (choose_data c config tok)) (\<lambda>dm.
     seq (call (New_datamodule dm) ()) (\<lambda>_.
     seq (call (New_logger (WandbLogger False)) (WandbLogger False)) (\<lambda>lg.
     seq (call (New_callback (LearningRateMonitor ''epoch'')) (LearningRateMonitor ''epoch''))
       (\<lambda>lr_monitor.
     seq (eval (make_trainer env config lr_monitor lg)) (\<lambda>tr.
     seq (call (New_trainer tr) ()) (\<lambda>_.
     seq (call (Trainer_fit tr transformer dm) ()) (\<lambda>_.
     finish c env config tr))))))))))))"

text \<open>Lines 14 to 89.\<close>

definition main :: "enkorde \<Rightarrow> env \<Rightarrow> args \<Rightarrow> unit run" where
  "main c env a =
     seq (eval (merge_config env a)) (\<lambda>config.
     seq (eval (index config ''entity'')) (\<lambda>ent.
     seq (call (Wandb_init ent ''enkorde'' config) ()) (\<lambda>_.
     with_exit (body c env config))))"

subsection \<open>Reading a trace\<close>

fun is_fit :: "event \<Rightarrow> bool" where
  "is_fit (Trainer_fit t m d) = True"
| "is_fit _ = False"

fun is_save_checkpoint :: "event \<Rightarrow> bool" where
  "is_save_checkpoint (Trainer_save_checkpoint t p) = True"
| "is_save_checkpoint _ = False"

fun is_new_artifact :: "event \<Rightarrow> bool" where
  "is_new_artifact (New_artifact art) = True"
| "is_new_artifact _ = False"

fun is_add_file :: "event \<Rightarrow> bool" where
  "is_add_file (Artifact_add_file art p) = True"
| "is_add_file _ = False"

fun is_log_artifact :: "event \<Rightarrow> bool" where
  "is_log_artifact (Run_log_artifact art al) = True"
| "is_log_artifact _ = False"

fun is_os_remove :: "event \<Rightarrow> bool" where
  "is_os_remove (Os_remove p) = True"
| "is_os_remove _ = False"

text \<open>An event of the block of lines 84 to 89.\<close>

definition is_upload_step :: "event \<Rightarrow> bool" where
  "is_upload_step ev =
     (is_save_checkpoint ev \<or> is_new_artifact ev \<or> is_add_file ev \<or> is_log_artifact ev
      \<or> is_os_remove ev)"

text \<open>Every call of the save, upload and cleanup sequence occurs in the trace.\<close>

definition upload_executed :: "event list \<Rightarrow> bool" where
  "upload_executed tr =
     (list_ex is_save_checkpoint tr \<and> list_ex is_new_artifact tr \<and> list_ex is_add_file tr
      \<and> list_ex is_log_artifact tr \<and> list_ex is_os_remove tr)"

text \<open>The five calls of lines 85 to 89, for an artifact named \<open>n\<close> and the alias \<open>v\<close>.\<close>

definition upload_trace :: "enkorde \<Rightarrow> config \<Rightarrow> trainer \<Rightarrow> pyval \<Rightarrow> pyval \<Rightarrow> event list" where
  "upload_trace c cfg t n v =
      [Trainer_save_checkpoint t (os_path_join (ROOT_DIR c) ''transformer.ckpt''),
       New_artifact (Artifact n ''model'' cfg []),
       Artifact_add_file (Artifact n ''model'' cfg [])
         (os_path_join (ROOT_DIR c) ''transformer.ckpt''),
       Run_log_artifact
         (Artifact n ''model'' cfg [os_path_join (ROOT_DIR c) ''transformer.ckpt''])
         [VStr ''latest'', v],
       Os_remove (os_path_join (ROOT_DIR c) ''transformer.ckpt'')]"

fun is_new_transformer :: "event \<Rightarrow> bool" where
  "is_new_transformer (New_transformer m) = True"
| "is_new_transformer _ = False"

fun is_new_datamodule :: "event \<Rightarrow> bool" where
  "is_new_datamodule (New_datamodule d) = True"
| "is_new_datamodule _ = False"

text \<open>What a constructor was given.\<close>

fun vocab_size_arg :: "transformer \<Rightarrow> int" where
  "vocab_size_arg (TransformerTorch h f vs ml pad nh dp dr lr dev) = vs"
| "vocab_size_arg (TransformerScratch h f vs ml pad nh dp dr lr) = vs"

fun pad_token_id_arg :: "transformer \<Rightarrow> int" where
  "pad_token_id_arg (TransformerTorch h f vs ml pad nh dp dr lr dev) = pad"
| "pad_token_id_arg (TransformerScratch h f vs ml pad nh dp dr lr) = pad"

fun device_arg :: "transformer \<Rightarrow> device option" where
  "device_arg (TransformerTorch h f vs ml pad nh dp dr lr dev) = Some dev"
| "device_arg (TransformerScratch h f vs ml pad nh dp dr lr) = None"

fun config_arg :: "datamodule \<Rightarrow> config" where
  "config_arg (Kor2EngDataModule cfg tok) = cfg"
| "config_arg (Kor2EngSmallDataModule cfg tok) = cfg"

fun tokenizer_arg :: "datamodule \<Rightarrow> tokenizer" where
  "tokenizer_arg (Kor2EngDataModule cfg tok) = tok"
| "tokenizer_arg (Kor2EngSmallDataModule cfg tok) = tok"

text \<open>The keys of the configuration a transformer's constructor reads, in order.\<close>

definition hyper_keys :: "string list" where
  "hyper_keys =
     [''hidden_size'', ''ffn_size'', ''max_length'', ''heads'', ''depth'', ''dropout'', ''lr'']"

subsection \<open>A sample run\<close>

definition sample_enkorde :: enkorde where
  "sample_enkorde =
     \<lparr>TransformerTorch_name = ''transformer_torch'',
      TransformerScratch_name = ''transformer_scratch'',
      Kor2EngDataModule_name = ''kor2eng'',
      Kor2EngSmallDataModule_name = ''kor2eng_small'',
      ROOT_DIR = ''/enkorde''\<rparr>"

definition sample_entry :: config where
  "sample_entry = map_of
     [(''tokenizer'', VStr ''wp''),
      (''data'', VStr ''kor2eng_small''),
      (''hidden_size'', VInt 512),
      (''ffn_size'', VInt 512),
      (''max_length'', VInt 145),
      (''heads'', VInt 32),
      (''depth'', VInt 3),
      (''dropout'', VFloat 0),
      (''lr'', VFloat 1),
      (''max_epochs'', VInt 2),
      (''num_workers'', VInt 0)]"

definition sample_tokenizer :: tokenizer where
  "sample_tokenizer = \<lparr>get_vocab_size = 100, pad_token_id = 0\<rparr>"

definition sample_env :: env where
  "sample_env =
     \<lparr>fetch_config =
        map_of [(''train'', map_of [(''transformer_torch'', map_of [(''overfit'', sample_entry)])])],
      fetch_tokenizer = (\<lambda>ent name. sample_tokenizer),
      cuda_is_available = False,
      cuda_device_count = 0,
      current_epoch = 1\<rparr>"

definition sample_args :: args where
  "sample_args =
     \<lparr>entity = ''eubinecto'', model = ''transformer_torch'', ver = ''overfit'',
      num_workers = 4, log_every_n_steps = 1, fast_dev_run = False, overfit_batches = 0,
      check_val_every_n_epoch = 1\<rparr>"

text \<open>The same collaborators, with another entry fetched for the sample command line.\<close>

definition with_entry :: "env \<Rightarrow> config \<Rightarrow> env" where
  "with_entry env entry =
     env\<lparr>fetch_config :=
        map_of [(''train'', map_of [(''transformer_torch'', map_of [(''overfit'', entry)])])]\<rparr>"

text \<open>The merged configuration, the transformer, the data module and the trainer of the sample run.\<close>

definition sample_config :: config where
  "sample_config = update sample_entry (vars sample_args)"

definition sample_transformer :: transformer where
  "sample_transformer =
     TransformerTorch (VInt 512) (VInt 512) 100 (VInt 145) 0 (VInt 32) (VInt 3) (VFloat 0)
       (VFloat 1) Cpu"

definition sample_datamodule :: datamodule where
  "sample_datamodule = Kor2EngSmallDataModule sample_config sample_tokenizer"

definition sample_trainer :: trainer where
  "sample_trainer =
     Trainer (VBool False) (VInt 1) (VInt 0) (VInt 2) (VInt 1) 0
       [LearningRateMonitor ''epoch''] False (WandbLogger False)"

section \<open>Properties\<close>

subsection \<open>Evaluating the sequencing operators\<close>

lemma bind_err_Inl [simp]: "bind_err (Inl e) f = Inl e"
  by (simp add: bind_err_def)

lemma bind_err_Inr [simp]: "bind_err (Inr x) f = f x"
  by (simp add: bind_err_def)

lemma bind_err_eq_Inr: "bind_err m f = Inr y \<longleftrightarrow> (\<exists>x. m = Inr x \<and> f x = Inr y)"
  by (cases m) simp_all

lemma index_Some [simp]: "d k = Some v \<Longrightarrow> index d k = Inr v"
  by (simp add: index_def)

lemma index_None [simp]: "d k = None \<Longrightarrow> index d k = Inl (KeyError k)"
  by (simp add: index_def)

lemma index_eq_Inr: "index d k = Inr v \<longleftrightarrow> d k = Some v"
  by (simp add: index_def split: option.splits)

lemma seq_eval_Inl [simp]: "seq (eval (Inl e)) f = ([], Inl e)"
  by (simp add: seq_def eval_def)

lemma seq_eval_Inr [simp]: "seq (eval (Inr x)) f = f x"
  by (simp add: seq_def eval_def split: prod.splits)

lemma seq_call [simp]: "seq (call ev x) f = (ev # fst (f x), snd (f x))"
  by (simp add: seq_def call_def split: prod.splits)

lemma fst_call [simp]: "fst (call ev x) = [ev]" and snd_call [simp]: "snd (call ev x) = Inr x"
  by (simp_all add: call_def)

lemma fst_eval [simp]: "fst (eval r) = []" and snd_eval [simp]: "snd (eval r) = r"
  by (simp_all add: eval_def)

lemma fst_with_exit [simp]:
  "fst (with_exit m) = fst m @ [Run_exit (case snd m of Inl e \<Rightarrow> Some e | Inr _ \<Rightarrow> None)]"
  and snd_with_exit [simp]: "snd (with_exit m) = snd m"
  by (simp_all add: with_exit_def split: prod.splits)

subsection \<open>The merged configuration\<close>

lemma vars_simps:
  "vars a ''entity'' = Some (VStr (entity a))"
  "vars a ''model'' = Some (VStr (model a))"
  "vars a ''ver'' = Some (VStr (ver a))"
  "vars a ''num_workers'' = Some (VInt (num_workers a))"
  "vars a ''log_every_n_steps'' = Some (VInt (log_every_n_steps a))"
  "vars a ''fast_dev_run'' = Some (VBool (fast_dev_run a))"
  "vars a ''overfit_batches'' = Some (VInt (overfit_batches a))"
  "vars a ''check_val_every_n_epoch'' = Some (VInt (check_val_every_n_epoch a))"
  by (simp_all add: vars_def)

lemma dom_vars: "dom (vars a) = cli_keys"
  by (auto simp: vars_def cli_keys_def split: if_splits)

lemma update_cli: "update d (vars a) k = (if k \<in> cli_keys then vars a k else d k)"
  using dom_vars [of a] by (auto simp: update_def map_add_def split: option.splits)

lemma merged_cli:
  assumes "merge_config env a = Inr cfg"
  shows "cfg ''entity'' = Some (VStr (entity a))"
    and "cfg ''model'' = Some (VStr (model a))"
    and "cfg ''ver'' = Some (VStr (ver a))"
    and "cfg ''fast_dev_run'' = Some (VBool (fast_dev_run a))"
  using assms
  by (auto simp: merge_config_def bind_err_eq_Inr index_eq_Inr update_cli cli_keys_def vars_simps)

subsection \<open>The run, step by step\<close>

lemma main_merge_Inl: "merge_config env a = Inl e \<Longrightarrow> main c env a = ([], Inl e)"
  by (simp add: main_def)

lemma main_merge_Inr:
  assumes "merge_config env a = Inr cfg"
  shows "main c env a =
     (Wandb_init (VStr (entity a)) ''enkorde'' cfg # fst (body c env cfg) @
        [Run_exit (case snd (body c env cfg) of Inl e \<Rightarrow> Some e | Inr _ \<Rightarrow> None)],
      snd (body c env cfg))"
  using assms merged_cli(1) [OF assms] by (simp add: main_def)

lemma finish_True:
  assumes "gate cfg (current_epoch env) = Inr True"
    and "cfg ''model'' = Some n" and "cfg ''ver'' = Some v"
  shows "finish c env cfg t =
     ([Trainer_save_checkpoint t (os_path_join (ROOT_DIR c) ''transformer.ckpt''),
       New_artifact (Artifact n ''model'' cfg []),
       Artifact_add_file (Artifact n ''model'' cfg [])
         (os_path_join (ROOT_DIR c) ''transformer.ckpt''),
       Run_log_artifact
         (Artifact n ''model'' cfg [os_path_join (ROOT_DIR c) ''transformer.ckpt''])
         [VStr ''latest'', v],
       Os_remove (os_path_join (ROOT_DIR c) ''transformer.ckpt'')], Inr ())"
  using assms by (simp add: finish_def upload_def Let_def)

lemma finish_False:
  "gate cfg (current_epoch env) = Inr False \<Longrightarrow> finish c env cfg t = ([], Inr ())"
  by (simp add: finish_def prod_eq_iff)

lemma finish_Inl:
  "gate cfg (current_epoch env) = Inl e \<Longrightarrow> finish c env cfg t = ([], Inl e)"
  by (simp add: finish_def)

lemma body_fit:
  assumes "cfg ''entity'' = Some ent" and "cfg ''tokenizer'' = Some tn"
    and "choose_model c env cfg (fetch_tokenizer env ent tn) = Inr m"
    and "choose_data c cfg (fetch_tokenizer env ent tn) = Inr d"
    and "make_trainer env cfg (LearningRateMonitor ''epoch'') (WandbLogger False) = Inr t"
  shows "body c env cfg =
     ([Fetch_tokenizer ent tn, New_transformer m, New_datamodule d,
       New_logger (WandbLogger False), New_callback (LearningRateMonitor ''epoch''),
       New_trainer t, Trainer_fit t m d] @ fst (finish c env cfg t),
      snd (finish c env cfg t))"
  using assms by (simp add: body_def)

lemma seq_eval: "seq (eval r) f = (case r of Inl e \<Rightarrow> ([], Inl e) | Inr x \<Rightarrow> f x)"
  by (cases r) simp_all

lemma body_cases:
  "(\<exists>ent tn m d t. cfg ''entity'' = Some ent \<and> cfg ''tokenizer'' = Some tn
      \<and> choose_model c env cfg (fetch_tokenizer env ent tn) = Inr m
      \<and> choose_data c cfg (fetch_tokenizer env ent tn) = Inr d
      \<and> make_trainer env cfg (LearningRateMonitor ''epoch'') (WandbLogger False) = Inr t)
   \<or> (\<exists>e. snd (body c env cfg) = Inl e
        \<and> list_all (\<lambda>ev. \<not> is_fit ev \<and> \<not> is_upload_step ev) (fst (body c env cfg)))"
  by (auto simp: body_def seq_eval is_upload_step_def index_def split: sum.splits option.splits)

lemma make_trainer_max_epochs:
  "make_trainer env cfg cb lg = Inr t \<Longrightarrow> \<exists>v. cfg ''max_epochs'' = Some v"
  by (auto simp: make_trainer_def bind_err_eq_Inr index_eq_Inr)

lemma gate_merged:
  assumes "cfg ''fast_dev_run'' = Some (VBool b)" and "cfg ''max_epochs'' = Some v"
  shows "gate cfg n =
     (if b then Inr False
      else case minus_one v of Inl e \<Rightarrow> Inl e | Inr w \<Rightarrow> Inr (int_eq n w))"
  using assms by (simp add: gate_def split: sum.splits)

lemma minus_one_Inl: "minus_one v = Inl e \<Longrightarrow> e = TypeError"
  by (cases v) simp_all

lemma main_cases:
  "(\<exists>e. merge_config env a = Inl e \<and> main c env a = ([], Inl e))
   \<or> (\<exists>cfg e tr. merge_config env a = Inr cfg
        \<and> main c env a =
            (Wandb_init (VStr (entity a)) ''enkorde'' cfg # tr @ [Run_exit (Some e)], Inl e)
        \<and> list_all (\<lambda>ev. \<not> is_fit ev \<and> \<not> is_upload_step ev) tr)
   \<or> (\<exists>cfg tn m d t. merge_config env a = Inr cfg \<and> cfg ''tokenizer'' = Some tn
        \<and> choose_model c env cfg (fetch_tokenizer env (VStr (entity a)) tn) = Inr m
        \<and> choose_data c cfg (fetch_tokenizer env (VStr (entity a)) tn) = Inr d
        \<and> make_trainer env cfg (LearningRateMonitor ''epoch'') (WandbLogger False) = Inr t
        \<and> main c env a =
            (Wandb_init (VStr (entity a)) ''enkorde'' cfg #
             [Fetch_tokenizer (VStr (entity a)) tn, New_transformer m, New_datamodule d,
              New_logger (WandbLogger False), New_callback (LearningRateMonitor ''epoch''),
              New_trainer t, Trainer_fit t m d] @ fst (finish c env cfg t) @
             [Run_exit (case snd (finish c env cfg t) of Inl e \<Rightarrow> Some e | Inr _ \<Rightarrow> None)],
             snd (finish c env cfg t)))"
proof (cases "merge_config env a")
  case (Inl e)
  then show ?thesis by (simp add: main_merge_Inl)
next
  case (Inr cfg)
  note m = main_merge_Inr [OF Inr, of c]
  note ent = merged_cli(1) [OF Inr]
  from body_cases [of cfg c env] show ?thesis
  proof
    assume "\<exists>ent tn m d t. cfg ''entity'' = Some ent \<and> cfg ''tokenizer'' = Some tn
      \<and> choose_model c env cfg (fetch_tokenizer env ent tn) = Inr m
      \<and> choose_data c cfg (fetch_tokenizer env ent tn) = Inr d
      \<and> make_trainer env cfg (LearningRateMonitor ''epoch'') (WandbLogger False) = Inr t"
    then obtain tn m d t where h: "cfg ''tokenizer'' = Some tn"
      "choose_model c env cfg (fetch_tokenizer env (VStr (entity a)) tn) = Inr m"
      "choose_data c cfg (fetch_tokenizer env (VStr (entity a)) tn) = Inr d"
      "make_trainer env cfg (LearningRateMonitor ''epoch'') (WandbLogger False) = Inr t"
      using ent by auto
    have "main c env a =
            (Wandb_init (VStr (entity a)) ''enkorde'' cfg #
             [Fetch_tokenizer (VStr (entity a)) tn, New_transformer m, New_datamodule d,
              New_logger (WandbLogger False), New_callback (LearningRateMonitor ''epoch''),
              New_trainer t, Trainer_fit t m d] @ fst (finish c env cfg t) @
             [Run_exit (case snd (finish c env cfg t) of Inl e \<Rightarrow> Some e | Inr _ \<Rightarrow> None)],
             snd (finish c env cfg t))"
      unfolding m body_fit [OF ent h] by simp
    with Inr h show ?thesis by blast
  next
    assume "\<exists>e. snd (body c env cfg) = Inl e
        \<and> list_all (\<lambda>ev. \<not> is_fit ev \<and> \<not> is_upload_step ev) (fst (body c env cfg))"
    then obtain e where "snd (body c env cfg) = Inl e"
      "list_all (\<lambda>ev. \<not> is_fit ev \<and> \<not> is_upload_step ev) (fst (body c env cfg))"
      by blast
    with m Inr show ?thesis by auto
  qed
qed

lemma finish_cases:
  assumes "cfg ''fast_dev_run'' = Some (VBool b)" and "cfg ''max_epochs'' = Some v"
    and "cfg ''model'' = Some n" and "cfg ''ver'' = Some w"
  shows "finish c env cfg t =
     (if b then ([], Inr ())
      else case minus_one v of
             Inl e \<Rightarrow> ([], Inl TypeError)
           | Inr x \<Rightarrow> if int_eq (current_epoch env) x then (upload_trace c cfg t n w, Inr ())
                      else ([], Inr ()))"
proof -
  note g = gate_merged [OF assms(1,2), of "current_epoch env"]
  show ?thesis
  proof (cases b)
    case True
    then show ?thesis using g by (simp add: finish_False)
  next
    case False
    show ?thesis
    proof (cases "minus_one v")
      case (Inl e)
      then show ?thesis using g False minus_one_Inl [OF Inl] by (simp add: finish_Inl)
    next
      case (Inr x)
      then show ?thesis
        using g False finish_True [OF _ assms(3,4), of env c t] finish_False [of cfg env c t]
        by (simp add: upload_trace_def)
    qed
  qed
qed

subsection \<open>The sample run, evaluated\<close>

lemma sample_merge: "merge_config sample_env sample_args = Inr sample_config"
  by (simp add: merge_config_def sample_env_def sample_args_def sample_config_def)

lemma sample_config_simps:
  "sample_config ''entity'' = Some (VStr ''eubinecto'')"
  "sample_config ''model'' = Some (VStr ''transformer_torch'')"
  "sample_config ''ver'' = Some (VStr ''overfit'')"
  "sample_config ''num_workers'' = Some (VInt 4)"
  "sample_config ''log_every_n_steps'' = Some (VInt 1)"
  "sample_config ''fast_dev_run'' = Some (VBool False)"
  "sample_config ''overfit_batches'' = Some (VInt 0)"
  "sample_config ''check_val_every_n_epoch'' = Some (VInt 1)"
  "sample_config ''tokenizer'' = Some (VStr ''wp'')"
  "sample_config ''data'' = Some (VStr ''kor2eng_small'')"
  "sample_config ''hidden_size'' = Some (VInt 512)"
  "sample_config ''ffn_size'' = Some (VInt 512)"
  "sample_config ''max_length'' = Some (VInt 145)"
  "sample_config ''heads'' = Some (VInt 32)"
  "sample_config ''depth'' = Some (VInt 3)"
  "sample_config ''dropout'' = Some (VFloat 0)"
  "sample_config ''lr'' = Some (VFloat 1)"
  "sample_config ''max_epochs'' = Some (VInt 2)"
  by (simp_all add: sample_config_def update_cli cli_keys_def vars_simps sample_args_def
      sample_entry_def)

lemma sample_choose_model:
  "choose_model sample_enkorde sample_env sample_config sample_tokenizer = Inr sample_transformer"
  by (simp add: choose_model_def sample_config_simps sample_enkorde_def sample_env_def
      sample_tokenizer_def sample_transformer_def)

lemma sample_choose_data:
  "choose_data sample_enkorde sample_config sample_tokenizer = Inr sample_datamodule"
  by (simp add: choose_data_def sample_config_simps sample_enkorde_def sample_datamodule_def)

lemma sample_make_trainer:
  "make_trainer sample_env sample_config (LearningRateMonitor ''epoch'') (WandbLogger False)
     = Inr sample_trainer"
  by (simp add: make_trainer_def sample_config_simps sample_env_def sample_trainer_def)

lemma sample_gate: "gate sample_config (current_epoch sample_env) = Inr True"
  by (simp add: gate_def sample_config_simps sample_env_def)

lemma sample_main:
  "main sample_enkorde sample_env sample_args =
     ([Wandb_init (VStr ''eubinecto'') ''enkorde'' sample_config,
       Fetch_tokenizer (VStr ''eubinecto'') (VStr ''wp''),
       New_transformer sample_transformer,
       New_datamodule sample_datamodule,
       New_logger (WandbLogger False),
       New_callback (LearningRateMonitor ''epoch''),
       New_trainer sample_trainer,
       Trainer_fit sample_trainer sample_transformer sample_datamodule,
       Trainer_save_checkpoint sample_trainer ''/enkorde/transformer.ckpt'',
       New_artifact (Artifact (VStr ''transformer_torch'') ''model'' sample_config []),
       Artifact_add_file (Artifact (VStr ''transformer_torch'') ''model'' sample_config [])
         ''/enkorde/transformer.ckpt'',
       Run_log_artifact
         (Artifact (VStr ''transformer_torch'') ''model'' sample_config
            [''/enkorde/transformer.ckpt''])
         [VStr ''latest'', VStr ''overfit''],
       Os_remove ''/enkorde/transformer.ckpt'',
       Run_exit None], Inr ())"
proof -
  have tok: "fetch_tokenizer sample_env (VStr ''eubinecto'') (VStr ''wp'') = sample_tokenizer"
    by (simp add: sample_env_def)
  have p: "os_path_join (ROOT_DIR sample_enkorde) ''transformer.ckpt'' = ''/enkorde/transformer.ckpt''"
    by (simp add: os_path_join_def sample_enkorde_def)
  have f: "finish sample_enkorde sample_env sample_config sample_trainer =
     (upload_trace sample_enkorde sample_config sample_trainer (VStr ''transformer_torch'')
        (VStr ''overfit''), Inr ())"
    using finish_True [OF sample_gate sample_config_simps(2,3)] by (simp add: upload_trace_def)
  have b: "body sample_enkorde sample_env sample_config =
     ([Fetch_tokenizer (VStr ''eubinecto'') (VStr ''wp''), New_transformer sample_transformer,
       New_datamodule sample_datamodule, New_logger (WandbLogger False),
       New_callback (LearningRateMonitor ''epoch''), New_trainer sample_trainer,
       Trainer_fit sample_trainer sample_transformer sample_datamodule]
       @ fst (finish sample_enkorde sample_env sample_config sample_trainer),
      snd (finish sample_enkorde sample_env sample_config sample_trainer))"
    by (rule body_fit [OF sample_config_simps(1) sample_config_simps(9)])
      (simp_all add: tok sample_choose_model sample_choose_data sample_make_trainer)
  have e: "entity sample_args = ''eubinecto''"
    by (simp add: sample_args_def)
  show ?thesis
    unfolding main_merge_Inr [OF sample_merge] b f upload_trace_def p e by simp
qed

subsection \<open>The shapes of a run\<close>

lemma quiet_no_upload:
  "list_all (\<lambda>ev. \<not> is_fit ev \<and> \<not> is_upload_step ev) tr \<Longrightarrow> \<not> list_ex is_upload_step tr"
  by (induction tr) auto

lemma quiet_no_fit:
  "list_all (\<lambda>ev. \<not> is_fit ev \<and> \<not> is_upload_step ev) tr \<Longrightarrow> \<not> list_ex is_fit tr"
  by (induction tr) auto

lemma finish_merged:
  assumes "merge_config env a = Inr cfg" and "cfg ''max_epochs'' = Some v"
  shows "finish c env cfg t =
     (if fast_dev_run a then ([], Inr ())
      else case minus_one v of
             Inl e \<Rightarrow> ([], Inl TypeError)
           | Inr x \<Rightarrow> if int_eq (current_epoch env) x
                      then (upload_trace c cfg t (VStr (model a)) (VStr (ver a)), Inr ())
                      else ([], Inr ()))"
  by (rule finish_cases [OF merged_cli(4) [OF assms(1)] assms(2) merged_cli(2) [OF assms(1)]
        merged_cli(3) [OF assms(1)]])

lemma main_run_cases [case_names fetch_failed early trained]:
  assumes "\<And>e. merge_config env a = Inl e \<Longrightarrow> main c env a = ([], Inl e) \<Longrightarrow> P"
    and "\<And>cfg e tr. merge_config env a = Inr cfg \<Longrightarrow>
           main c env a =
             (Wandb_init (VStr (entity a)) ''enkorde'' cfg # tr @ [Run_exit (Some e)], Inl e) \<Longrightarrow>
           list_all (\<lambda>ev. \<not> is_fit ev \<and> \<not> is_upload_step ev) tr \<Longrightarrow> P"
    and "\<And>cfg tn m d t v. merge_config env a = Inr cfg \<Longrightarrow> cfg ''tokenizer'' = Some tn \<Longrightarrow>
           choose_model c env cfg (fetch_tokenizer env (VStr (entity a)) tn) = Inr m \<Longrightarrow>
           choose_data c cfg (fetch_tokenizer env (VStr (entity a)) tn) = Inr d \<Longrightarrow>
           make_trainer env cfg (LearningRateMonitor ''epoch'') (WandbLogger False) = Inr t \<Longrightarrow>
           cfg ''max_epochs'' = Some v \<Longrightarrow>
           main c env a =
            (Wandb_init (VStr (entity a)) ''enkorde'' cfg #
             [Fetch_tokenizer (VStr (entity a)) tn, New_transformer m, New_datamodule d,
              New_logger (WandbLogger False), New_callback (LearningRateMonitor ''epoch''),
              New_trainer t, Trainer_fit t m d] @ fst (finish c env cfg t) @
             [Run_exit (case snd (finish c env cfg t) of Inl e \<Rightarrow> Some e | Inr _ \<Rightarrow> None)],
             snd (finish c env cfg t)) \<Longrightarrow> P"
  shows P
proof -
  from main_cases [of env a c] show P
  proof (elim disjE exE conjE)
    fix e assume "merge_config env a = Inl e" "main c env a = ([], Inl e)"
    then show P by (rule assms(1))
  next
    fix cfg e tr
    assume "merge_config env a = Inr cfg"
      "main c env a =
        (Wandb_init (VStr (entity a)) ''enkorde'' cfg # tr @ [Run_exit (Some e)], Inl e)"
      "list_all (\<lambda>ev. \<not> is_fit ev \<and> \<not> is_upload_step ev) tr"
    then show P by (rule assms(2))
  next
    fix cfg tn m d t
    assume h: "merge_config env a = Inr cfg" "cfg ''tokenizer'' = Some tn"
      "choose_model c env cfg (fetch_tokenizer env (VStr (entity a)) tn) = Inr m"
      "choose_data c cfg (fetch_tokenizer env (VStr (entity a)) tn) = Inr d"
      "make_trainer env cfg (LearningRateMonitor ''epoch'') (WandbLogger False) = Inr t"
      and r: "main c env a =
            (Wandb_init (VStr (entity a)) ''enkorde'' cfg #
             [Fetch_tokenizer (VStr (entity a)) tn, New_transformer m, New_datamodule d,
              New_logger (WandbLogger False), New_callback (LearningRateMonitor ''epoch''),
              New_trainer t, Trainer_fit t m d] @ fst (finish c env cfg t) @
             [Run_exit (case snd (finish c env cfg t) of Inl e \<Rightarrow> Some e | Inr _ \<Rightarrow> None)],
             snd (finish c env cfg t))"
    obtain v where v: "cfg ''max_epochs'' = Some v"
      using make_trainer_max_epochs [OF h(5)] by blast
    from h v r show P by (rule assms(3))
  qed
qed

subsection \<open>The end of a run that has trained\<close>

lemma upload_executed_any: "upload_executed tr \<Longrightarrow> list_ex is_upload_step tr"
  by (auto simp: upload_executed_def is_upload_step_def list_ex_iff)

lemma no_upload_step_iff:
  "(\<not> list_ex is_upload_step tr) =
     list_all (\<lambda>ev. \<not> is_save_checkpoint ev \<and> \<not> is_new_artifact ev \<and> \<not> is_add_file ev
        \<and> \<not> is_log_artifact ev \<and> \<not> is_os_remove ev) tr"
  by (induction tr) (auto simp: is_upload_step_def)

lemma finish_outcome:
  assumes "merge_config env a = Inr cfg" and "cfg ''max_epochs'' = Some v"
  shows "snd (finish c env cfg t) = Inr () \<or> snd (finish c env cfg t) = Inl TypeError"
  unfolding finish_merged [OF assms] by (simp split: sum.splits)

lemma finish_fast_dev_run:
  assumes "merge_config env a = Inr cfg" and "cfg ''max_epochs'' = Some v" and "fast_dev_run a"
  shows "finish c env cfg t = ([], Inr ())"
  unfolding finish_merged [OF assms(1,2)] using assms(3) by simp

lemma finish_gate_True:
  assumes "merge_config env a = Inr cfg" and "gate cfg (current_epoch env) = Inr True"
  shows "finish c env cfg t = (upload_trace c cfg t (VStr (model a)) (VStr (ver a)), Inr ())"
  using finish_True [OF assms(2) merged_cli(2) [OF assms(1)] merged_cli(3) [OF assms(1)], of c t]
  by (simp add: upload_trace_def)

lemma finish_no_fit: "\<not> list_ex is_fit (fst (finish c env cfg t))"
  by (auto simp: finish_def upload_def seq_eval Let_def split: sum.splits)

subsection \<open>Other runs of the sample, evaluated\<close>

lemma merge_with_entry:
  "merge_config (with_entry sample_env e) a =
     (if model a = ''transformer_torch'' \<and> ver a = ''overfit'' then Inr (update e (vars a))
      else if model a = ''transformer_torch'' then Inl (KeyError (ver a))
      else Inl (KeyError (model a)))"
  by (simp add: merge_config_def with_entry_def)

lemma sample_args_simps:
  "entity sample_args = ''eubinecto''" "model sample_args = ''transformer_torch''"
  "ver sample_args = ''overfit''" "fast_dev_run sample_args = False"
  by (simp_all add: sample_args_def)

lemma sample_trace_fit: "list_ex is_fit (fst (main sample_enkorde sample_env sample_args))"
  by (simp add: sample_main)

lemma bad_data_run:
  "main sample_enkorde (with_entry sample_env (sample_entry(''data'' \<mapsto> VStr ''eng2kor'')))
     sample_args =
   ([Wandb_init (VStr ''eubinecto'') ''enkorde''
       (update (sample_entry(''data'' \<mapsto> VStr ''eng2kor'')) (vars sample_args)),
     Fetch_tokenizer (VStr ''eubinecto'') (VStr ''wp''),
     New_transformer sample_transformer,
     Run_exit (Some (ValueError ''Invalid data: '' (VStr ''eng2kor'')))],
    Inl (ValueError ''Invalid data: '' (VStr ''eng2kor'')))"
proof -
  let ?cfg = "update (sample_entry(''data'' \<mapsto> VStr ''eng2kor'')) (vars sample_args)"
  have m: "merge_config (with_entry sample_env (sample_entry(''data'' \<mapsto> VStr ''eng2kor'')))
      sample_args = Inr ?cfg"
    by (simp add: merge_with_entry sample_args_simps)
  have keys: "?cfg ''entity'' = Some (VStr ''eubinecto'')" "?cfg ''tokenizer'' = Some (VStr ''wp'')"
    "?cfg ''model'' = Some (VStr ''transformer_torch'')"
    "?cfg ''data'' = Some (VStr ''eng2kor'')"
    "?cfg ''hidden_size'' = Some (VInt 512)"
    "?cfg ''ffn_size'' = Some (VInt 512)"
    "?cfg ''max_length'' = Some (VInt 145)"
    "?cfg ''heads'' = Some (VInt 32)"
    "?cfg ''depth'' = Some (VInt 3)"
    "?cfg ''dropout'' = Some (VFloat 0)"
    "?cfg ''lr'' = Some (VFloat 1)"
    by (simp_all add: update_cli cli_keys_def vars_simps sample_args_def sample_entry_def)
  have tok: "fetch_tokenizer (with_entry sample_env (sample_entry(''data'' \<mapsto> VStr ''eng2kor'')))
      (VStr ''eubinecto'') (VStr ''wp'') = sample_tokenizer"
    by (simp add: with_entry_def sample_env_def)
  have cm: "choose_model sample_enkorde
      (with_entry sample_env (sample_entry(''data'' \<mapsto> VStr ''eng2kor''))) ?cfg sample_tokenizer
      = Inr sample_transformer"
    by (simp add: choose_model_def keys sample_enkorde_def sample_env_def with_entry_def
        sample_tokenizer_def sample_transformer_def)
  have cd: "choose_data sample_enkorde ?cfg sample_tokenizer
      = Inl (ValueError ''Invalid data: '' (VStr ''eng2kor''))"
    by (simp add: choose_data_def keys sample_enkorde_def)
  have b: "body sample_enkorde (with_entry sample_env (sample_entry(''data'' \<mapsto> VStr ''eng2kor'')))
      ?cfg =
    ([Fetch_tokenizer (VStr ''eubinecto'') (VStr ''wp''), New_transformer sample_transformer],
     Inl (ValueError ''Invalid data: '' (VStr ''eng2kor'')))"
    by (simp add: body_def keys tok cm cd)
  show ?thesis
    unfolding main_merge_Inr [OF m] b by (simp add: sample_args_simps)
qed

subsection \<open>What a run constructs and whether it uploads\<close>

lemma finish_new_transformers: "filter is_new_transformer (fst (finish c env cfg t)) = []"
  by (auto simp: finish_def upload_def seq_eval Let_def split: sum.splits)

lemma finish_new_datamodules: "filter is_new_datamodule (fst (finish c env cfg t)) = []"
  by (auto simp: finish_def upload_def seq_eval Let_def split: sum.splits)

lemma finish_uploads:
  "list_ex is_upload_step (fst (finish c env cfg t)) = (gate cfg (current_epoch env) = Inr True)"
  by (auto simp: finish_def upload_def seq_eval Let_def is_upload_step_def split: sum.splits)

lemma body_new_transformers:
  "filter is_new_transformer (fst (body c env cfg)) =
     (case index cfg ''entity'' of Inl _ \<Rightarrow> [] | Inr ent \<Rightarrow>
      (case index cfg ''tokenizer'' of Inl _ \<Rightarrow> [] | Inr tn \<Rightarrow>
       (case choose_model c env cfg (fetch_tokenizer env ent tn) of Inl _ \<Rightarrow> []
        | Inr m \<Rightarrow> [New_transformer m])))"
  by (simp add: body_def seq_eval finish_new_transformers split: sum.splits)

lemma body_new_datamodules:
  "filter is_new_datamodule (fst (body c env cfg)) =
     (case index cfg ''entity'' of Inl _ \<Rightarrow> [] | Inr ent \<Rightarrow>
      (case index cfg ''tokenizer'' of Inl _ \<Rightarrow> [] | Inr tn \<Rightarrow>
       (case choose_model c env cfg (fetch_tokenizer env ent tn) of Inl _ \<Rightarrow> [] | Inr m \<Rightarrow>
        (case choose_data c cfg (fetch_tokenizer env ent tn) of Inl _ \<Rightarrow> []
         | Inr d \<Rightarrow> [New_datamodule d]))))"
  by (simp add: body_def seq_eval finish_new_datamodules split: sum.splits)

lemma body_uploads:
  "list_ex is_upload_step (fst (body c env cfg)) =
     (case index cfg ''entity'' of Inl _ \<Rightarrow> False | Inr ent \<Rightarrow>
      (case index cfg ''tokenizer'' of Inl _ \<Rightarrow> False | Inr tn \<Rightarrow>
       (case choose_model c env cfg (fetch_tokenizer env ent tn) of Inl _ \<Rightarrow> False | Inr m \<Rightarrow>
        (case choose_data c cfg (fetch_tokenizer env ent tn) of Inl _ \<Rightarrow> False | Inr d \<Rightarrow>
         (\<not> isl (make_trainer env cfg (LearningRateMonitor ''epoch'') (WandbLogger False))
          \<and> gate cfg (current_epoch env) = Inr True)))))"
  by (simp add: body_def seq_eval finish_uploads is_upload_step_def split: sum.splits)

lemma main_filter:
  assumes "\<And>e s cfg. \<not> P (Wandb_init e s cfg)" and "\<And>r. \<not> P (Run_exit r)"
  shows "filter P (fst (main c env a)) =
     (case merge_config env a of Inl _ \<Rightarrow> [] | Inr cfg \<Rightarrow> filter P (fst (body c env cfg)))"
  by (cases "merge_config env a") (simp_all add: main_merge_Inl main_merge_Inr assms)

lemma main_uploads:
  "list_ex is_upload_step (fst (main c env a)) =
     (case merge_config env a of Inl _ \<Rightarrow> False
      | Inr cfg \<Rightarrow> list_ex is_upload_step (fst (body c env cfg)))"
  by (cases "merge_config env a")
    (simp_all add: main_merge_Inl main_merge_Inr is_upload_step_def)

lemma merge_config_cong:
  "fetch_config env1 = fetch_config env2 \<Longrightarrow> merge_config env1 a = merge_config env2 a"
  by (simp add: merge_config_def)

lemma choose_model_cong:
  "cuda_is_available env1 = cuda_is_available env2 \<Longrightarrow>
   choose_model c env1 cfg tok = choose_model c env2 cfg tok"
  by (simp add: choose_model_def)

lemma make_trainer_isl:
  "isl (make_trainer env1 cfg cb lg) = isl (make_trainer env2 cfg cb lg)"
  by (auto simp: make_trainer_def bind_err_def index_def split: option.splits)

subsection \<open>The choice of the transformer, by cases\<close>

lemma choose_model_keys:
  assumes "cfg ''model'' = Some name"
    and "cfg ''hidden_size'' = Some h" and "cfg ''ffn_size'' = Some f"
    and "cfg ''max_length'' = Some ml" and "cfg ''heads'' = Some nh" and "cfg ''depth'' = Some dp"
    and "cfg ''dropout'' = Some dr" and "cfg ''lr'' = Some lr"
  shows "choose_model c env cfg tok =
     (if name = VStr (TransformerTorch_name c) then
        Inr (TransformerTorch h f (get_vocab_size tok) ml (pad_token_id tok) nh dp dr lr
               (if cuda_is_available env then Cuda else Cpu))
      else if name = VStr (TransformerScratch_name c) then
        Inr (TransformerScratch h f (get_vocab_size tok) ml (pad_token_id tok) nh dp dr lr)
      else Inl (ValueError ''Invalid model: '' name))"
  using assms by (simp add: choose_model_def)

lemma choose_model_neither:
  assumes "cfg ''model'' = Some name" and "name \<noteq> VStr (TransformerTorch_name c)"
    and "name \<noteq> VStr (TransformerScratch_name c)"
  shows "choose_model c env cfg tok = Inl (ValueError ''Invalid model: '' name)"
  using assms by (simp add: choose_model_def)

lemma hyper_lookup:
  "bind_err (index cfg k) g = (case cfg k of None \<Rightarrow> Inl (KeyError k) | Some v \<Rightarrow> g v)"
  by (simp add: index_def split: option.splits)

lemma choose_model_missing:
  assumes "cfg ''model'' = Some name"
    and "name = VStr (TransformerTorch_name c) \<or> name = VStr (TransformerScratch_name c)"
    and "\<exists>k\<in>set hyper_keys. cfg k = None"
  shows "\<exists>k\<in>set hyper_keys. cfg k = None \<and> choose_model c env cfg tok = Inl (KeyError k)"
  using assms
  by (auto simp: choose_model_def hyper_keys_def hyper_lookup Let_def split: option.splits)

section \<open>The claims\<close>

subsection \<open>When the upload happens\<close>

text \<open>
  C1. The save, upload and cleanup sequence is executed if and only if the run has trained,
  the merged configuration's \<open>fast_dev_run\<close> is false and the trainer's current epoch
  equals \<open>config['max_epochs'] - 1\<close>, as Python evaluates that test; in every other run
  no step of the sequence happens at all, so no checkpoint is saved and no artifact is
  uploaded.
\<close>

theorem upload_iff_gate:
  "upload_executed (fst (main c env a)) =
     (list_ex is_fit (fst (main c env a)) \<and>
      (\<exists>cfg v w. merge_config env a = Inr cfg \<and> cfg ''fast_dev_run'' = Some (VBool False)
         \<and> cfg ''max_epochs'' = Some v \<and> minus_one v = Inr w \<and> int_eq (current_epoch env) w))
   \<and> list_ex is_upload_step (fst (main c env a)) = upload_executed (fst (main c env a))"
proof (cases rule: main_run_cases [of env a c])
  case (fetch_failed e)
  then show ?thesis by (simp add: upload_executed_def)
next
  case (early cfg e tr)
  have no: "\<not> list_ex is_upload_step (fst (main c env a))"
    using early(2) quiet_no_upload [OF early(3)] by (simp add: is_upload_step_def)
  then have "\<not> upload_executed (fst (main c env a))"
    using upload_executed_any by blast
  moreover have "\<not> list_ex is_fit (fst (main c env a))"
    using early(2) quiet_no_fit [OF early(3)] by simp
  ultimately show ?thesis using no by simp
next
  case (trained cfg tn m d t v)
  note f = finish_merged [OF trained(1,6), of c t]
  note fdr = merged_cli(4) [OF trained(1)]
  show ?thesis
  proof (cases "\<not> fast_dev_run a \<and> (\<exists>w. minus_one v = Inr w \<and> int_eq (current_epoch env) w)")
    case True
    then obtain w where w: "minus_one v = Inr w" "int_eq (current_epoch env) w" by blast
    have fin: "finish c env cfg t =
        (upload_trace c cfg t (VStr (model a)) (VStr (ver a)), Inr ())"
      using f True w by simp
    have tr: "fst (main c env a) =
        [Wandb_init (VStr (entity a)) ''enkorde'' cfg,
         Fetch_tokenizer (VStr (entity a)) tn, New_transformer m, New_datamodule d,
         New_logger (WandbLogger False), New_callback (LearningRateMonitor ''epoch''),
         New_trainer t, Trainer_fit t m d] @
        upload_trace c cfg t (VStr (model a)) (VStr (ver a)) @ [Run_exit None]"
      using trained(7) fin by simp
    have "upload_executed (fst (main c env a))"
      unfolding tr by (simp add: upload_executed_def upload_trace_def)
    moreover have "list_ex is_upload_step (fst (main c env a))"
      unfolding tr by (simp add: is_upload_step_def upload_trace_def)
    moreover have "list_ex is_fit (fst (main c env a))"
      unfolding tr by simp
    ultimately show ?thesis
      using True trained(1,6) fdr by auto
  next
    case False
    have fin: "fst (finish c env cfg t) = []"
      using f False by (auto split: sum.splits)
    have tr: "fst (main c env a) =
        [Wandb_init (VStr (entity a)) ''enkorde'' cfg,
         Fetch_tokenizer (VStr (entity a)) tn, New_transformer m, New_datamodule d,
         New_logger (WandbLogger False), New_callback (LearningRateMonitor ''epoch''),
         New_trainer t, Trainer_fit t m d] @
        [Run_exit (case snd (finish c env cfg t) of Inl e \<Rightarrow> Some e | Inr _ \<Rightarrow> None)]"
      using trained(7) fin by simp
    have "\<not> upload_executed (fst (main c env a))"
      unfolding tr by (simp add: upload_executed_def)
    moreover have "\<not> list_ex is_upload_step (fst (main c env a))"
      unfolding tr by (simp add: is_upload_step_def)
    ultimately show ?thesis
      using False trained(1,6) fdr by auto
  qed
qed

subsection \<open>The choice of the transformer\<close>

text \<open>
  C2, as amended. The transformer is chosen by an if/elif/else over \<open>config['model']\<close>,
  which every merged configuration defines. When the configuration defines
  \<open>hidden_size\<close>, \<open>ffn_size\<close>, \<open>max_length\<close>, \<open>heads\<close>, \<open>depth\<close>, \<open>dropout\<close> and
  \<open>lr\<close>: a name equal to \<open>TransformerTorch.name\<close> constructs a \<open>TransformerTorch\<close> with
  the hidden size, the ffn size, the tokenizer's vocabulary size, the maximal length, the
  pad token id, the heads, the depth, the dropout, the learning rate and the device;
  otherwise a name equal to \<open>TransformerScratch.name\<close> constructs a
  \<open>TransformerScratch\<close> with the same arguments but the device; otherwise a
  \<open>ValueError\<close> is raised. A name equal to neither raises the \<open>ValueError\<close> whatever
  else the configuration defines. A name equal to one of the two, in a configuration that
  lacks one of the seven keys, raises a \<open>KeyError\<close> for a key it lacks, and no
  transformer is constructed.
\<close>

theorem dispatch_model:
  assumes "cfg ''model'' = Some name"
  shows "(cfg ''hidden_size'' = Some h \<and> cfg ''ffn_size'' = Some f \<and> cfg ''max_length'' = Some ml
        \<and> cfg ''heads'' = Some nh \<and> cfg ''depth'' = Some dp \<and> cfg ''dropout'' = Some dr
        \<and> cfg ''lr'' = Some lr \<longrightarrow>
      choose_model c env cfg tok =
        (if name = VStr (TransformerTorch_name c) then
           Inr (TransformerTorch h f (get_vocab_size tok) ml (pad_token_id tok) nh dp dr lr
                  (if cuda_is_available env then Cuda else Cpu))
         else if name = VStr (TransformerScratch_name c) then
           Inr (TransformerScratch h f (get_vocab_size tok) ml (pad_token_id tok) nh dp dr lr)
         else Inl (ValueError ''Invalid model: '' name)))
    \<and> (name \<noteq> VStr (TransformerTorch_name c) \<and> name \<noteq> VStr (TransformerScratch_name c) \<longrightarrow>
         choose_model c env cfg tok = Inl (ValueError ''Invalid model: '' name))
    \<and> ((name = VStr (TransformerTorch_name c) \<or> name = VStr (TransformerScratch_name c))
         \<and> (\<exists>k\<in>set hyper_keys. cfg k = None) \<longrightarrow>
         (\<exists>k\<in>set hyper_keys. cfg k = None \<and> choose_model c env cfg tok = Inl (KeyError k)))"
  using assms
    choose_model_keys [where cfg = cfg and name = name and h = h and f = f and ml = ml
      and nh = nh and dp = dp and dr = dr and lr = lr and c = c and env = env and tok = tok]
    choose_model_neither [where cfg = cfg and name = name and c = c and env = env and tok = tok]
    choose_model_missing [where cfg = cfg and name = name and c = c and env = env and tok = tok]
  by blast

theorem dispatch_model_witness:
  "sample_config ''model'' = Some (VStr ''transformer_torch'')
   \<and> sample_config ''hidden_size'' = Some (VInt 512) \<and> sample_config ''ffn_size'' = Some (VInt 512)
   \<and> sample_config ''max_length'' = Some (VInt 145) \<and> sample_config ''heads'' = Some (VInt 32)
   \<and> sample_config ''depth'' = Some (VInt 3) \<and> sample_config ''dropout'' = Some (VFloat 0)
   \<and> sample_config ''lr'' = Some (VFloat 1)
   \<and> choose_model sample_enkorde sample_env sample_config sample_tokenizer =
       Inr (TransformerTorch (VInt 512) (VInt 512) 100 (VInt 145) 0 (VInt 32) (VInt 3) (VFloat 0)
              (VFloat 1) Cpu)"
proof -
  have "VStr ''transformer_torch'' = VStr (TransformerTorch_name sample_enkorde)"
    "get_vocab_size sample_tokenizer = 100" "pad_token_id sample_tokenizer = 0"
    "cuda_is_available sample_env = False"
    by (simp_all add: sample_enkorde_def sample_tokenizer_def sample_env_def)
  then show ?thesis
    using dispatch_model [where cfg = sample_config and name = "VStr ''transformer_torch''"
        and h = "VInt 512" and f = "VInt 512"
        and ml = "VInt 145" and nh = "VInt 32" and dp = "VInt 3" and dr = "VFloat 0"
        and lr = "VFloat 1" and c = sample_enkorde and env = sample_env
        and tok = sample_tokenizer]
      sample_config_simps
    by simp
qed

text \<open>
  The claim C2 as it was stated, for every merged configuration, fails on one that lacks
  \<open>hidden_size\<close>: its \<open>model\<close> is the name of \<open>TransformerTorch\<close>, and the run ends
  with a \<open>KeyError\<close> before any transformer is constructed.
\<close>

theorem dispatch_model_counterexample:
  "merge_config (with_entry sample_env (sample_entry(''hidden_size'' := None))) sample_args
     = Inr (update (sample_entry(''hidden_size'' := None)) (vars sample_args))
   \<and> update (sample_entry(''hidden_size'' := None)) (vars sample_args) ''model''
     = Some (VStr (TransformerTorch_name sample_enkorde))
   \<and> choose_model sample_enkorde (with_entry sample_env (sample_entry(''hidden_size'' := None)))
       (update (sample_entry(''hidden_size'' := None)) (vars sample_args)) sample_tokenizer
     = Inl (KeyError ''hidden_size'')
   \<and> main sample_enkorde (with_entry sample_env (sample_entry(''hidden_size'' := None)))
       sample_args
     = ([Wandb_init (VStr ''eubinecto'') ''enkorde''
           (update (sample_entry(''hidden_size'' := None)) (vars sample_args)),
         Fetch_tokenizer (VStr ''eubinecto'') (VStr ''wp''),
         Run_exit (Some (KeyError ''hidden_size''))],
        Inl (KeyError ''hidden_size''))"
proof -
  let ?env = "with_entry sample_env (sample_entry(''hidden_size'' := None))"
  let ?cfg = "update (sample_entry(''hidden_size'' := None)) (vars sample_args)"
  have m: "merge_config ?env sample_args = Inr ?cfg"
    by (simp add: merge_with_entry sample_args_simps)
  have keys: "?cfg ''entity'' = Some (VStr ''eubinecto'')" "?cfg ''tokenizer'' = Some (VStr ''wp'')"
    "?cfg ''model'' = Some (VStr ''transformer_torch'')" "?cfg ''hidden_size'' = None"
    by (simp_all add: update_cli cli_keys_def vars_simps sample_args_def sample_entry_def)
  have name: "?cfg ''model'' = Some (VStr (TransformerTorch_name sample_enkorde))"
    by (simp add: keys sample_enkorde_def)
  have tok: "fetch_tokenizer ?env (VStr ''eubinecto'') (VStr ''wp'') = sample_tokenizer"
    by (simp add: with_entry_def sample_env_def)
  have cm: "choose_model sample_enkorde ?env ?cfg sample_tokenizer = Inl (KeyError ''hidden_size'')"
    by (simp add: choose_model_def keys sample_enkorde_def)
  have b: "body sample_enkorde ?env ?cfg =
    ([Fetch_tokenizer (VStr ''eubinecto'') (VStr ''wp'')], Inl (KeyError ''hidden_size''))"
    by (simp add: body_def keys tok cm)
  have "main sample_enkorde ?env sample_args
     = ([Wandb_init (VStr ''eubinecto'') ''enkorde'' ?cfg,
         Fetch_tokenizer (VStr ''eubinecto'') (VStr ''wp''),
         Run_exit (Some (KeyError ''hidden_size''))],
        Inl (KeyError ''hidden_size''))"
    unfolding main_merge_Inr [OF m] b by (simp add: sample_args_simps)
  then show ?thesis
    using m name cm by simp
qed

subsection \<open>The choice of the data module\<close>

text \<open>
  C3, as amended. The choice of the data module raises \<open>ValueError\<close> if and only if the
  configuration defines \<open>data\<close> and its value equals neither \<open>Kor2EngDataModule.name\<close>
  nor \<open>Kor2EngSmallDataModule.name\<close>; a value equal to the first name constructs a
  \<open>Kor2EngDataModule\<close>, a value equal to the second and not to the first a
  \<open>Kor2EngSmallDataModule\<close>, each with the merged configuration and the fetched
  tokenizer; and a configuration without \<open>data\<close> raises \<open>KeyError\<close> and constructs
  nothing.
\<close>

theorem dispatch_data:
  "((\<exists>msg v. choose_data c cfg tok = Inl (ValueError msg v)) =
      (\<exists>name. cfg ''data'' = Some name \<and> name \<noteq> VStr (Kor2EngDataModule_name c)
         \<and> name \<noteq> VStr (Kor2EngSmallDataModule_name c)))
   \<and> (cfg ''data'' = Some (VStr (Kor2EngDataModule_name c)) \<longrightarrow>
        choose_data c cfg tok = Inr (Kor2EngDataModule cfg tok))
   \<and> (cfg ''data'' = Some (VStr (Kor2EngSmallDataModule_name c))
        \<and> Kor2EngSmallDataModule_name c \<noteq> Kor2EngDataModule_name c \<longrightarrow>
        choose_data c cfg tok = Inr (Kor2EngSmallDataModule cfg tok))
   \<and> (cfg ''data'' = None \<longrightarrow> choose_data c cfg tok = Inl (KeyError ''data''))"
  by (cases "cfg ''data''") (auto simp: choose_data_def)

theorem dispatch_data_witness:
  "sample_config ''data'' = Some (VStr (Kor2EngSmallDataModule_name sample_enkorde))
   \<and> Kor2EngSmallDataModule_name sample_enkorde \<noteq> Kor2EngDataModule_name sample_enkorde
   \<and> choose_data sample_enkorde sample_config sample_tokenizer
        = Inr (Kor2EngSmallDataModule sample_config sample_tokenizer)"
proof -
  have h: "sample_config ''data'' = Some (VStr (Kor2EngSmallDataModule_name sample_enkorde))"
    "Kor2EngSmallDataModule_name sample_enkorde \<noteq> Kor2EngDataModule_name sample_enkorde"
    by (simp_all add: sample_config_simps sample_enkorde_def)
  then show ?thesis
    using dispatch_data [of sample_enkorde sample_config sample_tokenizer] by blast
qed

text \<open>
  The claim C3 as it was stated, for every merged configuration, fails on one that lacks
  \<open>data\<close>: the choice raises no \<open>ValueError\<close> and constructs no data module, the run
  ends with a \<open>KeyError\<close>.
\<close>

theorem dispatch_data_counterexample:
  "merge_config (with_entry sample_env (sample_entry(''data'' := None))) sample_args
     = Inr (update (sample_entry(''data'' := None)) (vars sample_args))
   \<and> update (sample_entry(''data'' := None)) (vars sample_args) ''data'' = None
   \<and> choose_data sample_enkorde (update (sample_entry(''data'' := None)) (vars sample_args))
       sample_tokenizer
     = Inl (KeyError ''data'')
   \<and> main sample_enkorde (with_entry sample_env (sample_entry(''data'' := None))) sample_args
     = ([Wandb_init (VStr ''eubinecto'') ''enkorde''
           (update (sample_entry(''data'' := None)) (vars sample_args)),
         Fetch_tokenizer (VStr ''eubinecto'') (VStr ''wp''),
         New_transformer sample_transformer,
         Run_exit (Some (KeyError ''data''))],
        Inl (KeyError ''data''))"
proof -
  let ?env = "with_entry sample_env (sample_entry(''data'' := None))"
  let ?cfg = "update (sample_entry(''data'' := None)) (vars sample_args)"
  have m: "merge_config ?env sample_args = Inr ?cfg"
    by (simp add: merge_with_entry sample_args_simps)
  have keys: "?cfg ''entity'' = Some (VStr ''eubinecto'')" "?cfg ''tokenizer'' = Some (VStr ''wp'')"
    "?cfg ''model'' = Some (VStr ''transformer_torch'')"
    "?cfg ''data'' = None"
    "?cfg ''hidden_size'' = Some (VInt 512)"
    "?cfg ''ffn_size'' = Some (VInt 512)"
    "?cfg ''max_length'' = Some (VInt 145)"
    "?cfg ''heads'' = Some (VInt 32)"
    "?cfg ''depth'' = Some (VInt 3)"
    "?cfg ''dropout'' = Some (VFloat 0)"
    "?cfg ''lr'' = Some (VFloat 1)"
    by (simp_all add: update_cli cli_keys_def vars_simps sample_args_def sample_entry_def)
  have tok: "fetch_tokenizer ?env (VStr ''eubinecto'') (VStr ''wp'') = sample_tokenizer"
    by (simp add: with_entry_def sample_env_def)
  have cm: "choose_model sample_enkorde ?env ?cfg sample_tokenizer = Inr sample_transformer"
    by (simp add: choose_model_def keys sample_enkorde_def sample_env_def with_entry_def
        sample_tokenizer_def sample_transformer_def)
  have cd: "choose_data sample_enkorde ?cfg sample_tokenizer = Inl (KeyError ''data'')"
    by (simp add: choose_data_def keys)
  have b: "body sample_enkorde ?env ?cfg =
    ([Fetch_tokenizer (VStr ''eubinecto'') (VStr ''wp''), New_transformer sample_transformer],
     Inl (KeyError ''data''))"
    by (simp add: body_def keys tok cm cd)
  have "main sample_enkorde ?env sample_args
     = ([Wandb_init (VStr ''eubinecto'') ''enkorde'' ?cfg,
         Fetch_tokenizer (VStr ''eubinecto'') (VStr ''wp''),
         New_transformer sample_transformer,
         Run_exit (Some (KeyError ''data''))],
        Inl (KeyError ''data''))"
    unfolding main_merge_Inr [OF m] b by (simp add: sample_args_simps)
  then show ?thesis
    using m keys(4) cd by simp
qed

subsection \<open>The merged configuration\<close>

text \<open>
  C4. The merged configuration is the entry \<open>fetch_config()['train'][args.model][args.ver]\<close>
  updated with the parsed command line: each of the eight command line keys has the
  command line's value, whether or not the fetched entry defines it, and every other key
  is as fetched.
\<close>

theorem merged_config_cli_wins:
  assumes "merge_config env a = Inr cfg"
  shows "\<exists>train by_ver fetched.
      fetch_config env ''train'' = Some train \<and> train (model a) = Some by_ver
    \<and> by_ver (ver a) = Some fetched
    \<and> cfg = update fetched (vars a)
    \<and> cfg ''entity'' = Some (VStr (entity a))
    \<and> cfg ''model'' = Some (VStr (model a))
    \<and> cfg ''ver'' = Some (VStr (ver a))
    \<and> cfg ''num_workers'' = Some (VInt (num_workers a))
    \<and> cfg ''log_every_n_steps'' = Some (VInt (log_every_n_steps a))
    \<and> cfg ''fast_dev_run'' = Some (VBool (fast_dev_run a))
    \<and> cfg ''overfit_batches'' = Some (VInt (overfit_batches a))
    \<and> cfg ''check_val_every_n_epoch'' = Some (VInt (check_val_every_n_epoch a))
    \<and> (\<forall>k. k \<notin> cli_keys \<longrightarrow> cfg k = fetched k)"
proof -
  obtain train by_ver fetched where f: "fetch_config env ''train'' = Some train"
    "train (model a) = Some by_ver" "by_ver (ver a) = Some fetched"
    and cfg: "cfg = update fetched (vars a)"
    using assms by (auto simp: merge_config_def bind_err_eq_Inr index_eq_Inr)
  have "cfg ''entity'' = Some (VStr (entity a))"
    "cfg ''model'' = Some (VStr (model a))"
    "cfg ''ver'' = Some (VStr (ver a))"
    "cfg ''num_workers'' = Some (VInt (num_workers a))"
    "cfg ''log_every_n_steps'' = Some (VInt (log_every_n_steps a))"
    "cfg ''fast_dev_run'' = Some (VBool (fast_dev_run a))"
    "cfg ''overfit_batches'' = Some (VInt (overfit_batches a))"
    "cfg ''check_val_every_n_epoch'' = Some (VInt (check_val_every_n_epoch a))"
    unfolding cfg by (simp_all add: update_cli cli_keys_def vars_simps)
  moreover have "\<forall>k. k \<notin> cli_keys \<longrightarrow> cfg k = fetched k"
    unfolding cfg by (simp add: update_cli)
  ultimately show ?thesis
    using f cfg by blast
qed

theorem merged_config_cli_wins_witness:
  "merge_config sample_env sample_args = Inr sample_config
   \<and> (\<exists>train by_ver fetched.
      fetch_config sample_env ''train'' = Some train \<and> train (model sample_args) = Some by_ver
    \<and> by_ver (ver sample_args) = Some fetched
    \<and> sample_config = update fetched (vars sample_args)
    \<and> sample_config ''entity'' = Some (VStr (entity sample_args))
    \<and> sample_config ''model'' = Some (VStr (model sample_args))
    \<and> sample_config ''ver'' = Some (VStr (ver sample_args))
    \<and> sample_config ''num_workers'' = Some (VInt (num_workers sample_args))
    \<and> sample_config ''log_every_n_steps'' = Some (VInt (log_every_n_steps sample_args))
    \<and> sample_config ''fast_dev_run'' = Some (VBool (fast_dev_run sample_args))
    \<and> sample_config ''overfit_batches'' = Some (VInt (overfit_batches sample_args))
    \<and> sample_config ''check_val_every_n_epoch'' = Some (VInt (check_val_every_n_epoch sample_args))
    \<and> (\<forall>k. k \<notin> cli_keys \<longrightarrow> sample_config k = fetched k))
   \<and> sample_entry ''num_workers'' = Some (VInt 0)
   \<and> sample_config ''num_workers'' = Some (VInt 4)"
proof -
  have "sample_entry ''num_workers'' = Some (VInt 0)"
    by (simp add: sample_entry_def)
  then show ?thesis
    using merged_config_cli_wins [OF sample_merge] sample_merge sample_config_simps(4)
    by blast
qed

subsection \<open>The order of the upload\<close>

text \<open>
  C5. When a run has trained and the test of line 83 is true, its trace ends with: the
  checkpoint saved to \<open>os.path.join(ROOT_DIR, 'transformer.ckpt')\<close>, an artifact created
  with the name \<open>config['model']\<close>, the type \<open>model\<close> and the merged configuration as
  metadata, the checkpoint file added to it, the artifact logged with the aliases
  \<open>latest\<close> and \<open>config['ver']\<close>, the checkpoint file removed, and then the exit of the
  \<open>with\<close> block; none of these calls happens earlier in the run.
\<close>

theorem upload_steps_in_order:
  assumes "merge_config env a = Inr cfg"
    and "list_ex is_fit (fst (main c env a))"
    and "gate cfg (current_epoch env) = Inr True"
  shows "\<exists>pre t. fst (main c env a) =
      pre @
      [Trainer_save_checkpoint t (os_path_join (ROOT_DIR c) ''transformer.ckpt''),
       New_artifact (Artifact (VStr (model a)) ''model'' cfg []),
       Artifact_add_file (Artifact (VStr (model a)) ''model'' cfg [])
         (os_path_join (ROOT_DIR c) ''transformer.ckpt''),
       Run_log_artifact
         (Artifact (VStr (model a)) ''model'' cfg
            [os_path_join (ROOT_DIR c) ''transformer.ckpt''])
         [VStr ''latest'', VStr (ver a)],
       Os_remove (os_path_join (ROOT_DIR c) ''transformer.ckpt''),
       Run_exit None]
    \<and> \<not> list_ex is_upload_step pre
    \<and> cfg ''model'' = Some (VStr (model a)) \<and> cfg ''ver'' = Some (VStr (ver a))"
proof (cases rule: main_run_cases [of env a c])
  case (fetch_failed e)
  then show ?thesis using assms(2) by simp
next
  case (early cfg' e tr)
  then show ?thesis
    using assms(2) quiet_no_fit [of tr] by simp
next
  case (trained cfg' tn m d t v)
  have eq: "cfg' = cfg" using trained(1) assms(1) by simp
  have tr: "fst (main c env a) =
      [Wandb_init (VStr (entity a)) ''enkorde'' cfg,
       Fetch_tokenizer (VStr (entity a)) tn, New_transformer m, New_datamodule d,
       New_logger (WandbLogger False), New_callback (LearningRateMonitor ''epoch''),
       New_trainer t, Trainer_fit t m d] @
      upload_trace c cfg t (VStr (model a)) (VStr (ver a)) @ [Run_exit None]"
    unfolding trained(7) eq finish_gate_True [OF assms(1,3)] by simp
  have "\<not> list_ex is_upload_step
      [Wandb_init (VStr (entity a)) ''enkorde'' cfg,
       Fetch_tokenizer (VStr (entity a)) tn, New_transformer m, New_datamodule d,
       New_logger (WandbLogger False), New_callback (LearningRateMonitor ''epoch''),
       New_trainer t, Trainer_fit t m d]"
    by (simp add: is_upload_step_def)
  then show ?thesis
    using tr merged_cli(2,3) [OF assms(1)] unfolding upload_trace_def by fastforce
qed

theorem upload_steps_in_order_witness:
  "merge_config sample_env sample_args = Inr sample_config
   \<and> list_ex is_fit (fst (main sample_enkorde sample_env sample_args))
   \<and> gate sample_config (current_epoch sample_env) = Inr True
   \<and> (\<exists>pre t. fst (main sample_enkorde sample_env sample_args) =
      pre @
      [Trainer_save_checkpoint t (os_path_join (ROOT_DIR sample_enkorde) ''transformer.ckpt''),
       New_artifact (Artifact (VStr (model sample_args)) ''model'' sample_config []),
       Artifact_add_file (Artifact (VStr (model sample_args)) ''model'' sample_config [])
         (os_path_join (ROOT_DIR sample_enkorde) ''transformer.ckpt''),
       Run_log_artifact
         (Artifact (VStr (model sample_args)) ''model'' sample_config
            [os_path_join (ROOT_DIR sample_enkorde) ''transformer.ckpt''])
         [VStr ''latest'', VStr (ver sample_args)],
       Os_remove (os_path_join (ROOT_DIR sample_enkorde) ''transformer.ckpt''),
       Run_exit None]
    \<and> \<not> list_ex is_upload_step pre
    \<and> sample_config ''model'' = Some (VStr (model sample_args))
    \<and> sample_config ''ver'' = Some (VStr (ver sample_args)))"
  using upload_steps_in_order [OF sample_merge sample_trace_fit sample_gate]
    sample_merge sample_trace_fit sample_gate
  by blast

subsection \<open>The wiring of a training run\<close>

text \<open>
  C6. A run that reaches training has, in this order, fetched the tokenizer named by
  \<open>config['entity']\<close> and \<open>config['tokenizer']\<close>, constructed the transformer,
  constructed the data module, and called \<open>trainer.fit\<close> once, with that transformer and
  that data module. The transformer was given the vocabulary size and the pad token id of
  the fetched tokenizer, the data module the merged configuration and the fetched
  tokenizer itself.
\<close>

theorem fit_gets_fetched_tokenizer:
  assumes "list_ex is_fit (fst (main c env a))"
  shows "\<exists>cfg tn m d t rest.
      merge_config env a = Inr cfg \<and> cfg ''entity'' = Some (VStr (entity a))
    \<and> cfg ''tokenizer'' = Some tn
    \<and> fst (main c env a) =
        [Wandb_init (VStr (entity a)) ''enkorde'' cfg,
         Fetch_tokenizer (VStr (entity a)) tn,
         New_transformer m, New_datamodule d,
         New_logger (WandbLogger False), New_callback (LearningRateMonitor ''epoch''),
         New_trainer t, Trainer_fit t m d] @ rest
    \<and> vocab_size_arg m = get_vocab_size (fetch_tokenizer env (VStr (entity a)) tn)
    \<and> pad_token_id_arg m = pad_token_id (fetch_tokenizer env (VStr (entity a)) tn)
    \<and> tokenizer_arg d = fetch_tokenizer env (VStr (entity a)) tn
    \<and> config_arg d = cfg
    \<and> \<not> list_ex is_fit rest"
proof (cases rule: main_run_cases [of env a c])
  case (fetch_failed e)
  then show ?thesis using assms by simp
next
  case (early cfg' e tr)
  then show ?thesis
    using assms quiet_no_fit [of tr] by simp
next
  case (trained cfg tn m d t v)
  have vs: "vocab_size_arg m = get_vocab_size (fetch_tokenizer env (VStr (entity a)) tn)"
    and pad: "pad_token_id_arg m = pad_token_id (fetch_tokenizer env (VStr (entity a)) tn)"
    using trained(3)
    by (auto simp: choose_model_def bind_err_eq_Inr Let_def split: if_splits)
  have tok: "tokenizer_arg d = fetch_tokenizer env (VStr (entity a)) tn"
    and cf: "config_arg d = cfg"
    using trained(4)
    by (auto simp: choose_data_def bind_err_eq_Inr split: if_splits)
  have tr: "fst (main c env a) =
      [Wandb_init (VStr (entity a)) ''enkorde'' cfg,
       Fetch_tokenizer (VStr (entity a)) tn, New_transformer m, New_datamodule d,
       New_logger (WandbLogger False), New_callback (LearningRateMonitor ''epoch''),
       New_trainer t, Trainer_fit t m d] @
      (fst (finish c env cfg t) @
       [Run_exit (case snd (finish c env cfg t) of Inl e \<Rightarrow> Some e | Inr _ \<Rightarrow> None)])"
    unfolding trained(7) by simp
  have "\<not> list_ex is_fit (fst (finish c env cfg t) @
       [Run_exit (case snd (finish c env cfg t) of Inl e \<Rightarrow> Some e | Inr _ \<Rightarrow> None)])"
    using finish_no_fit [of c env cfg t] by simp
  then show ?thesis
    using tr trained(1,2) merged_cli(1) [OF trained(1)] vs pad tok cf by blast
qed

theorem fit_gets_fetched_tokenizer_witness:
  "list_ex is_fit (fst (main sample_enkorde sample_env sample_args))
   \<and> (\<exists>cfg tn m d t rest.
      merge_config sample_env sample_args = Inr cfg
    \<and> cfg ''entity'' = Some (VStr (entity sample_args))
    \<and> cfg ''tokenizer'' = Some tn
    \<and> fst (main sample_enkorde sample_env sample_args) =
        [Wandb_init (VStr (entity sample_args)) ''enkorde'' cfg,
         Fetch_tokenizer (VStr (entity sample_args)) tn,
         New_transformer m, New_datamodule d,
         New_logger (WandbLogger False), New_callback (LearningRateMonitor ''epoch''),
         New_trainer t, Trainer_fit t m d] @ rest
    \<and> vocab_size_arg m = get_vocab_size (fetch_tokenizer sample_env (VStr (entity sample_args)) tn)
    \<and> pad_token_id_arg m = pad_token_id (fetch_tokenizer sample_env (VStr (entity sample_args)) tn)
    \<and> tokenizer_arg d = fetch_tokenizer sample_env (VStr (entity sample_args)) tn
    \<and> config_arg d = cfg
    \<and> \<not> list_ex is_fit rest)"
  using fit_gets_fetched_tokenizer [OF sample_trace_fit] sample_trace_fit
  by blast

subsection \<open>Equal inputs, equal decisions\<close>

text \<open>
  C7. Two runs with the same command line, the same fetched configuration, the same
  tokenizers, the same CUDA availability and the same current epoch after training
  construct the same transformers and the same data modules, and both upload or neither
  does; the number of CUDA devices, the one thing left free, has no part in it.
\<close>

theorem same_inputs_same_decisions:
  assumes "fetch_config env1 = fetch_config env2"
    and "fetch_tokenizer env1 = fetch_tokenizer env2"
    and "cuda_is_available env1 = cuda_is_available env2"
    and "current_epoch env1 = current_epoch env2"
  shows "filter is_new_transformer (fst (main c env1 a))
           = filter is_new_transformer (fst (main c env2 a))
    \<and> filter is_new_datamodule (fst (main c env1 a))
           = filter is_new_datamodule (fst (main c env2 a))
    \<and> list_ex is_upload_step (fst (main c env1 a))
           = list_ex is_upload_step (fst (main c env2 a))"
proof -
  note m = merge_config_cong [OF assms(1), of a]
  have cm: "\<And>cfg tok. choose_model c env1 cfg tok = choose_model c env2 cfg tok"
    by (rule choose_model_cong [OF assms(3)])
  have mt: "\<And>cfg. isl (make_trainer env1 cfg (LearningRateMonitor ''epoch'') (WandbLogger False))
      = isl (make_trainer env2 cfg (LearningRateMonitor ''epoch'') (WandbLogger False))"
    by (rule make_trainer_isl)
  have "filter is_new_transformer (fst (main c env1 a))
           = filter is_new_transformer (fst (main c env2 a))"
    by (simp add: main_filter body_new_transformers m cm assms(2) cong: sum.case_cong)
  moreover have "filter is_new_datamodule (fst (main c env1 a))
           = filter is_new_datamodule (fst (main c env2 a))"
    by (simp add: main_filter body_new_datamodules m cm assms(2) cong: sum.case_cong)
  moreover have "list_ex is_upload_step (fst (main c env1 a))
           = list_ex is_upload_step (fst (main c env2 a))"
    by (simp add: main_uploads body_uploads m cm mt [of _] assms(2,4) cong: sum.case_cong)
  ultimately show ?thesis by blast
qed

theorem same_inputs_same_decisions_witness:
  "fetch_config sample_env = fetch_config (sample_env\<lparr>cuda_device_count := 8\<rparr>)
   \<and> fetch_tokenizer sample_env = fetch_tokenizer (sample_env\<lparr>cuda_device_count := 8\<rparr>)
   \<and> cuda_is_available sample_env = cuda_is_available (sample_env\<lparr>cuda_device_count := 8\<rparr>)
   \<and> current_epoch sample_env = current_epoch (sample_env\<lparr>cuda_device_count := 8\<rparr>)
   \<and> filter is_new_transformer (fst (main sample_enkorde sample_env sample_args))
        = filter is_new_transformer
            (fst (main sample_enkorde (sample_env\<lparr>cuda_device_count := 8\<rparr>) sample_args))
   \<and> filter is_new_datamodule (fst (main sample_enkorde sample_env sample_args))
        = filter is_new_datamodule
            (fst (main sample_enkorde (sample_env\<lparr>cuda_device_count := 8\<rparr>) sample_args))
   \<and> list_ex is_upload_step (fst (main sample_enkorde sample_env sample_args))
        = list_ex is_upload_step
            (fst (main sample_enkorde (sample_env\<lparr>cuda_device_count := 8\<rparr>) sample_args))
   \<and> filter is_new_transformer (fst (main sample_enkorde sample_env sample_args))
        = [New_transformer sample_transformer]
   \<and> filter is_new_datamodule (fst (main sample_enkorde sample_env sample_args))
        = [New_datamodule sample_datamodule]
   \<and> list_ex is_upload_step (fst (main sample_enkorde sample_env sample_args))"
proof -
  have h: "fetch_config sample_env = fetch_config (sample_env\<lparr>cuda_device_count := 8\<rparr>)"
    "fetch_tokenizer sample_env = fetch_tokenizer (sample_env\<lparr>cuda_device_count := 8\<rparr>)"
    "cuda_is_available sample_env = cuda_is_available (sample_env\<lparr>cuda_device_count := 8\<rparr>)"
    "current_epoch sample_env = current_epoch (sample_env\<lparr>cuda_device_count := 8\<rparr>)"
    by simp_all
  have "filter is_new_transformer (fst (main sample_enkorde sample_env sample_args))
        = [New_transformer sample_transformer]"
    "filter is_new_datamodule (fst (main sample_enkorde sample_env sample_args))
        = [New_datamodule sample_datamodule]"
    "list_ex is_upload_step (fst (main sample_enkorde sample_env sample_args))"
    by (simp_all add: sample_main is_upload_step_def)
  then show ?thesis
    using same_inputs_same_decisions [OF h, of sample_enkorde sample_args] h by blast
qed

subsection \<open>A fast development run uploads nothing\<close>

text \<open>
  C8. When the merged configuration's \<open>fast_dev_run\<close> is true, no run saves a checkpoint,
  creates an artifact, adds a file to one, logs one or removes a file, whatever the
  trainer's current epoch and \<open>config['max_epochs']\<close> are.
\<close>

theorem fast_dev_run_never_uploads:
  assumes "merge_config env a = Inr cfg" and "cfg ''fast_dev_run'' = Some (VBool True)"
  shows "list_all (\<lambda>ev. \<not> is_save_checkpoint ev \<and> \<not> is_new_artifact ev \<and> \<not> is_add_file ev
            \<and> \<not> is_log_artifact ev \<and> \<not> is_os_remove ev) (fst (main c env a))"
proof -
  have fdr: "fast_dev_run a"
    using merged_cli(4) [OF assms(1)] assms(2) by simp
  have "\<not> list_ex is_upload_step (fst (main c env a))"
  proof (cases rule: main_run_cases [of env a c])
    case (fetch_failed e)
    then show ?thesis by simp
  next
    case (early cfg' e tr)
    then show ?thesis
      using quiet_no_upload [of tr] by (simp add: is_upload_step_def)
  next
    case (trained cfg' tn m d t v)
    show ?thesis
      unfolding trained(7) finish_fast_dev_run [OF trained(1,6) fdr]
      by (simp add: is_upload_step_def)
  qed
  then show ?thesis
    by (simp add: no_upload_step_iff)
qed

theorem fast_dev_run_never_uploads_witness:
  "merge_config sample_env (sample_args\<lparr>fast_dev_run := True\<rparr>)
     = Inr (update sample_entry (vars (sample_args\<lparr>fast_dev_run := True\<rparr>)))
   \<and> update sample_entry (vars (sample_args\<lparr>fast_dev_run := True\<rparr>)) ''fast_dev_run''
     = Some (VBool True)
   \<and> list_all (\<lambda>ev. \<not> is_save_checkpoint ev \<and> \<not> is_new_artifact ev \<and> \<not> is_add_file ev
            \<and> \<not> is_log_artifact ev \<and> \<not> is_os_remove ev)
        (fst (main sample_enkorde sample_env (sample_args\<lparr>fast_dev_run := True\<rparr>)))"
proof -
  have m: "merge_config sample_env (sample_args\<lparr>fast_dev_run := True\<rparr>)
     = Inr (update sample_entry (vars (sample_args\<lparr>fast_dev_run := True\<rparr>)))"
    by (simp add: merge_config_def sample_env_def sample_args_def)
  have f: "update sample_entry (vars (sample_args\<lparr>fast_dev_run := True\<rparr>)) ''fast_dev_run''
     = Some (VBool True)"
    by (simp add: update_cli cli_keys_def vars_simps)
  show ?thesis
    using fast_dev_run_never_uploads [OF m f, of sample_enkorde] m f by simp
qed

subsection \<open>Who is given a device\<close>

text \<open>
  C9. A constructed transformer was given a device exactly when \<open>config['model']\<close> is the
  name of \<open>TransformerTorch\<close>: then the device is \<open>cuda\<close> when CUDA is available and
  \<open>cpu\<close> otherwise; the \<open>TransformerScratch\<close> constructor is given no device.
\<close>

theorem device_only_for_torch:
  assumes "choose_model c env cfg tok = Inr m"
  shows "device_arg m =
     (if cfg ''model'' = Some (VStr (TransformerTorch_name c))
      then Some (if cuda_is_available env then Cuda else Cpu) else None)"
  using assms
  by (auto simp: choose_model_def bind_err_eq_Inr index_eq_Inr Let_def split: if_splits)

theorem device_only_for_torch_witness:
  "choose_model sample_enkorde sample_env sample_config sample_tokenizer = Inr sample_transformer
   \<and> device_arg sample_transformer =
     (if sample_config ''model'' = Some (VStr (TransformerTorch_name sample_enkorde))
      then Some (if cuda_is_available sample_env then Cuda else Cpu) else None)"
  using device_only_for_torch [OF sample_choose_model] sample_choose_model by blast

subsection \<open>A dispatch that fails ends the run\<close>

text \<open>
  C10. A run that ends with the \<open>ValueError\<close> of a dispatch (the only places that raise
  one) has not called \<open>trainer.fit\<close>, has saved no checkpoint and has created, filled or
  logged no artifact, and has removed no file.
\<close>

theorem value_error_ends_run:
  assumes "snd (main c env a) = Inl (ValueError msg v)"
  shows "list_all (\<lambda>ev. \<not> is_fit ev \<and> \<not> is_save_checkpoint ev \<and> \<not> is_new_artifact ev
            \<and> \<not> is_add_file ev \<and> \<not> is_log_artifact ev \<and> \<not> is_os_remove ev)
           (fst (main c env a))"
proof -
  have "\<not> list_ex is_fit (fst (main c env a)) \<and> \<not> list_ex is_upload_step (fst (main c env a))"
  proof (cases rule: main_run_cases [of env a c])
    case (fetch_failed e)
    then show ?thesis by simp
  next
    case (early cfg e tr)
    then show ?thesis
      using quiet_no_upload [of tr] quiet_no_fit [of tr] by (simp add: is_upload_step_def)
  next
    case (trained cfg tn m d t w)
    then show ?thesis
      using finish_outcome [OF trained(1,6), of c t] assms by auto
  qed
  then show ?thesis
    by (auto simp: list_all_iff list_ex_iff is_upload_step_def)
qed

theorem value_error_ends_run_witness:
  "snd (main sample_enkorde (with_entry sample_env (sample_entry(''data'' \<mapsto> VStr ''eng2kor'')))
          sample_args) = Inl (ValueError ''Invalid data: '' (VStr ''eng2kor''))
   \<and> list_all (\<lambda>ev. \<not> is_fit ev \<and> \<not> is_save_checkpoint ev \<and> \<not> is_new_artifact ev
            \<and> \<not> is_add_file ev \<and> \<not> is_log_artifact ev \<and> \<not> is_os_remove ev)
        (fst (main sample_enkorde
           (with_entry sample_env (sample_entry(''data'' \<mapsto> VStr ''eng2kor''))) sample_args))"
proof -
  have h: "snd (main sample_enkorde
      (with_entry sample_env (sample_entry(''data'' \<mapsto> VStr ''eng2kor''))) sample_args)
      = Inl (ValueError ''Invalid data: '' (VStr ''eng2kor''))"
    by (simp add: bad_data_run)
  show ?thesis
    using value_error_ends_run [OF h] h by blast
qed

end
